theory Spec2Isabelle
  imports Main "HOL-Library.Word" "HOL-Library.AList"
begin

section \<open>The layered configuration store of \<open>src/config.c\<close>\<close>

text \<open>
  A shallow embedding of \<open>src/config.c\<close>: the registry of configuration backends
  (\<open>git_config_add_file\<close>, \<open>git_config_foreach\<close>, \<open>git_config_get_string\<close>,
  \<open>git_config_set_string\<close>, \<open>git_config_set_bool\<close>) and the value coercions
  (\<open>git_config__parse_long\<close>, \<open>git_config__parse_int\<close>, \<open>git_config__parse_bool\<close>).

  Machine integers: \<open>int\<close> is a \<open>32 word\<close> and \<open>long int\<close> a \<open>64 word\<close> (an LP64
  platform), both read as two's complement with \<open>sint\<close>; arithmetic wraps around.
  Status codes are values of \<open>git_error + 'a\<close>: \<open>Inl\<close> is one of the negative \<open>GIT_E*\<close>
  codes, \<open>Inr\<close> is \<open>GIT_SUCCESS\<close> together with what the function stores through its
  out parameter. \<open>git__throw\<close> and \<open>git__rethrow\<close> return the code they are given; the
  message they record is not modelled, so the \<open>name\<close> parameters that only feed messages
  are kept in the signatures and otherwise unused. Strings are C strings: lists of
  characters other than the byte 0, which ends them.
\<close>

subsection \<open>Error codes\<close>

datatype git_error =
    GIT_ENOMEM
  | GIT_EINVALIDARGS
  | GIT_ENOTFOUND
  | GIT_EINVALIDTYPE
  | GIT_EOSERR

subsection \<open>Value coercion\<close>

text \<open>
  \<open>strcasecmp\<close> of the C library: the strings are compared byte by byte after mapping
  \<open>A\<close>..\<open>Z\<close> to lower case, the end of a string counting as the byte 0; the result is
  the difference at the first position where they differ, and 0 when they do not.
\<close>

definition tolower_code :: "char \<Rightarrow> nat" where
  "tolower_code c = (let n = of_char c :: nat in if 65 \<le> n \<and> n \<le> 90 then n + 32 else n)"

fun strcasecmp :: "string \<Rightarrow> string \<Rightarrow> int" where
  "strcasecmp [] [] = 0"
| "strcasecmp [] (b # bs) = - int (tolower_code b)"
| "strcasecmp (a # as) [] = int (tolower_code a)"
| "strcasecmp (a # as) (b # bs) =
     (if tolower_code a = tolower_code b then strcasecmp as bs
      else int (tolower_code a) - int (tolower_code b))"

text \<open>
  Modelled from the spec: \<open>git__strtol32\<close> is called by \<open>git_config__parse_long\<close> with
  base 0 and is not part of \<open>src/config.c\<close>. The spec has it parse "a signed integer
  literal (decimal, with support for alternate bases matching common integer-literal
  conventions)": an optional sign, then \<open>0x\<close>/\<open>0X\<close> for hexadecimal, a leading \<open>0\<close> for
  octal, decimal otherwise, then at least one digit of that base. The call site passes
  the address of a \<open>long int\<close> for the value and of a \<open>const char *\<close> for the end of
  the literal, so success is the pair of a \<open>64 word\<close> and the unread rest of the string.
  The spec has a literal that fails to parse end in TypeError, and the caller hands the
  code on unchanged, so failure (no digit, or a value that no \<open>long int\<close> holds) is
  \<open>GIT_EINVALIDTYPE\<close> here.
\<close>

definition digit_value :: "char \<Rightarrow> nat" where
  "digit_value c =
     (let n = of_char c :: nat in
      if 48 \<le> n \<and> n \<le> 57 then n - 48
      else if 97 \<le> n \<and> n \<le> 122 then n - 97 + 10
      else if 65 \<le> n \<and> n \<le> 90 then n - 65 + 10
      else 36)"

fun scan_digits :: "nat \<Rightarrow> string \<Rightarrow> nat \<Rightarrow> nat \<Rightarrow> nat \<times> nat \<times> string" where
  "scan_digits base [] n ndig = (n, ndig, [])"
| "scan_digits base (c # cs) n ndig =
     (if digit_value c < base
      then scan_digits base cs (n * base + digit_value c) (Suc ndig)
      else (n, ndig, c # cs))"

definition strip_sign :: "string \<Rightarrow> bool \<times> string" where
  "strip_sign p =
     (case p of
        [] \<Rightarrow> (False, [])
      | c # cs \<Rightarrow>
          if c = CHR ''-'' then (True, cs)
          else if c = CHR ''+'' then (False, cs)
          else (False, c # cs))"

definition detect_base :: "string \<Rightarrow> nat \<times> string" where
  "detect_base p =
     (case p of
        [] \<Rightarrow> (10, [])
      | c # cs \<Rightarrow>
          if c \<noteq> CHR ''0'' then (10, c # cs)
          else (case cs of
                  [] \<Rightarrow> (8, c # cs)
                | x # ds \<Rightarrow>
                    if x = CHR ''x'' \<or> x = CHR ''X'' then (16, ds) else (8, c # cs)))"

definition git__strtol32 :: "string \<Rightarrow> git_error + (64 word \<times> string)" where
  "git__strtol32 nptr =
     (let (neg, p) = strip_sign nptr;
          (base, q) = detect_base p;
          (n, ndig, rest) = scan_digits base q 0 0;
          v = (if neg then - int n else int n)
      in if ndig = 0 then Inl GIT_EINVALIDTYPE
         else if v < - (2 ^ 63) \<or> 2 ^ 63 \<le> v then Inl GIT_EINVALIDTYPE
         else Inr (word_of_int v, rest))"

text \<open>
  \<open>git_config__parse_long\<close> (config.c, lines 221-253). The literal parser is the
  parameter \<open>strtol\<close>; the program passes \<open>git__strtol32\<close>. The \<open>switch\<close> reads the one
  character at \<open>num_end\<close>: the end of the string, one of the six unit letters, or
  anything else. \<open>1024 * 1024 * 1024\<close> is computed in \<open>int\<close> (it is \<open>2 ^ 30\<close>) and the
  product with \<open>num\<close> in \<open>long int\<close>.
\<close>

definition git_config__parse_long ::
  "(string \<Rightarrow> git_error + (64 word \<times> string)) \<Rightarrow> string \<Rightarrow> string \<Rightarrow> git_error + 64 word"
where
  "git_config__parse_long strtol name value =
     (case strtol value of
        Inl ret \<Rightarrow> Inl ret
      | Inr (num, num_end) \<Rightarrow>
          (case num_end of
             [] \<Rightarrow> Inr num
           | c # _ \<Rightarrow>
               if c = CHR ''k'' \<or> c = CHR ''K'' then Inr (num * 1024)
               else if c = CHR ''m'' \<or> c = CHR ''M'' then Inr (num * (1024 * 1024))
               else if c = CHR ''g'' \<or> c = CHR ''G'' then Inr (num * (1024 * 1024 * 1024))
               else Inl GIT_EINVALIDTYPE))"

text \<open>
  \<open>git_config__parse_int\<close> (lines 266-276): the \<open>long int\<close> is narrowed to \<open>int\<close> by a
  cast, which keeps the low 32 bits, and the status of the long parse is returned.
\<close>

definition git_config__parse_int ::
  "(string \<Rightarrow> git_error + (64 word \<times> string)) \<Rightarrow> string \<Rightarrow> string \<Rightarrow> git_error + 32 word"
where
  "git_config__parse_int strtol name value =
     (case git_config__parse_long strtol name value of
        Inl ret \<Rightarrow> Inl ret
      | Inr tmp \<Rightarrow> Inr (ucast tmp))"

text \<open>
  \<open>git_config__parse_bool\<close> (lines 289-320). The value is \<open>None\<close> for a \<open>NULL\<close>
  pointer. The result is the \<open>int\<close> stored in \<open>*out\<close>: 1 or 0.
\<close>

definition git_config__parse_bool ::
  "(string \<Rightarrow> git_error + (64 word \<times> string)) \<Rightarrow> string \<Rightarrow> string option \<Rightarrow> git_error + 32 word"
where
  "git_config__parse_bool strtol name value =
     (case value of
        None \<Rightarrow> Inr 1
      | Some v \<Rightarrow>
          if strcasecmp v ''true'' = 0 \<or> strcasecmp v ''yes'' = 0 \<or> strcasecmp v ''on'' = 0
          then Inr 1
          else if strcasecmp v ''false'' = 0 \<or> strcasecmp v ''no'' = 0 \<or> strcasecmp v ''off'' = 0
          then Inr 0
          else (case git_config__parse_int strtol name v of
                  Inl error \<Rightarrow> Inl error
                | Inr out \<Rightarrow> Inr (if out \<noteq> 0 then 1 else 0)))"

subsection \<open>Backends and the store\<close>

text \<open>
  Objects live in a heap and are named by their addresses, since the store, its entries
  and the caller all point at the same backend object. A \<open>git_config_file\<close> carries
  the back pointer \<open>cfg\<close> (\<open>None\<close> for \<open>NULL\<close>) that \<open>git_config_add_file\<close> writes;
  \<open>data\<close> is the rest of the object, which belongs to the concrete backend.

  The store reaches a backend only through the function pointers \<open>get\<close>, \<open>set\<close> and
  \<open>foreach\<close> of its \<open>git_config_file\<close>. They are the parameters \<open>getp\<close>,
  \<open>setp\<close> and \<open>foreachp\<close> of the store's operations: what the backend does when
  it is called through the pointer, as a function of the backend object. \<open>setp\<close>
  returns the object as it is after the call.
  A callback \<open>int (*fn)(const char *, void *)\<close> receives the variable's name and the
  caller's \<open>data\<close>, which it may update; it returns an \<open>int\<close>.
\<close>

type_synonym cfg_ptr = nat
type_synonym file_ptr = nat

record 'b git_config_file =
  cfg :: "cfg_ptr option"
  data :: 'b

type_synonym 'd config_callback = "string \<Rightarrow> 'd \<Rightarrow> int \<times> 'd"

type_synonym 'b get_fn = "'b git_config_file \<Rightarrow> string \<Rightarrow> git_error + string option"

type_synonym 'b set_fn =
  "'b git_config_file \<Rightarrow> string \<Rightarrow> string \<Rightarrow> (git_error + unit) \<times> 'b git_config_file"

type_synonym ('b, 'd) foreach_fn =
  "'b git_config_file \<Rightarrow> 'd config_callback \<Rightarrow> 'd \<Rightarrow> int \<times> 'd"

text \<open>
  \<open>file_internal\<close> (lines 35-38) pairs a backend with its priority. The entries are
  allocated by \<open>git_config_add_file\<close> and never shared, so the vector \<open>cfg->files\<close> is
  the list of the entries themselves.
\<close>

record file_internal =
  "file" :: file_ptr
  priority :: "32 word"

record git_config =
  files :: "file_internal list"

record 'b heap =
  configs :: "cfg_ptr \<Rightarrow> git_config"
  backends :: "file_ptr \<Rightarrow> 'b git_config_file"

text \<open>\<open>config_backend_cmp\<close> (lines 105-111): the difference of two \<open>int\<close>s.\<close>

definition config_backend_cmp :: "file_internal \<Rightarrow> file_internal \<Rightarrow> 32 word" where
  "config_backend_cmp bk_a bk_b = priority bk_b - priority bk_a"

text \<open>
  Modelled from the spec: \<open>git_vector_insert\<close> and \<open>git_vector_sort\<close> belong to the
  generic container (\<open>vector.h\<close>), which is not part of \<open>src/config.c\<close>. An insertion
  appends the element, or fails on an allocation failure "without mutating existing
  entries"; whether the allocation succeeds is the argument \<open>ok\<close>. Sorting orders the
  elements by the comparator the vector was initialised with (\<open>git_config_new\<close> passes
  \<open>config_backend_cmp\<close>), an element \<open>a\<close> staying before \<open>b\<close> when \<open>cmp a b \<le> 0\<close>;
  it is an insertion sort here.
\<close>

definition git_vector_insert :: "bool \<Rightarrow> 'a list \<Rightarrow> 'a \<Rightarrow> 'a list option" where
  "git_vector_insert ok v element = (if ok then Some (v @ [element]) else None)"

fun insert_by :: "('a \<Rightarrow> 'a \<Rightarrow> 32 word) \<Rightarrow> 'a \<Rightarrow> 'a list \<Rightarrow> 'a list" where
  "insert_by cmp x [] = [x]"
| "insert_by cmp x (y # ys) =
     (if sint (cmp x y) \<le> 0 then x # y # ys else y # insert_by cmp x ys)"

definition git_vector_sort :: "('a \<Rightarrow> 'a \<Rightarrow> 32 word) \<Rightarrow> 'a list \<Rightarrow> 'a list" where
  "git_vector_sort cmp v = foldr (insert_by cmp) v []"

text \<open>
  \<open>git_config_add_file\<close> (lines 133-155). \<open>malloc_ok\<close> says whether \<open>git__malloc\<close>
  returns an entry, \<open>insert_ok\<close> whether \<open>git_vector_insert\<close> finds room. The result is
  the status and the heap after the call.
\<close>

definition git_config_add_file ::
  "'b heap \<Rightarrow> bool \<Rightarrow> bool \<Rightarrow> cfg_ptr \<Rightarrow> file_ptr \<Rightarrow> 32 word \<Rightarrow> (git_error + unit) \<times> 'b heap"
where
  "git_config_add_file h malloc_ok insert_ok c f prio =
     (if \<not> malloc_ok then (Inl GIT_ENOMEM, h)
      else
        let internal = \<lparr>file = f, priority = prio\<rparr> in
        case git_vector_insert insert_ok (files (configs h c)) internal of
          None \<Rightarrow> (Inl GIT_ENOMEM, h)
        | Some v \<Rightarrow>
            let h1 = h\<lparr>configs := (configs h)(c := \<lparr>files = git_vector_sort config_backend_cmp v\<rparr>)\<rparr>;
                h2 = h1\<lparr>backends := (backends h1)(f := (backends h1 f)\<lparr>cfg := Some c\<rparr>)\<rparr>
            in (Inr (), h2))"

text \<open>
  \<open>git_config_foreach\<close> (lines 161-175): the loop runs over the entries by index while
  \<open>ret\<close> is 0. \<open>foreach_files\<close> is the loop from index \<open>i\<close> on, given the entries from
  \<open>i\<close> on and the current \<open>ret\<close>.
\<close>

fun foreach_files ::
  "('b, 'd) foreach_fn \<Rightarrow> 'b heap \<Rightarrow> file_internal list \<Rightarrow> 'd config_callback \<Rightarrow> int \<Rightarrow> 'd
     \<Rightarrow> int \<times> 'd"
where
  "foreach_files foreachp h [] fn ret d = (ret, d)"
| "foreach_files foreachp h (internal # rest) fn ret d =
     (if ret = 0
      then (case foreachp (backends h (file internal)) fn d of
              (ret', d') \<Rightarrow> foreach_files foreachp h rest fn ret' d')
      else (ret, d))"

definition git_config_foreach ::
  "('b, 'd) foreach_fn \<Rightarrow> 'b heap \<Rightarrow> cfg_ptr \<Rightarrow> 'd config_callback \<Rightarrow> 'd \<Rightarrow> int \<times> 'd"
where
  "git_config_foreach foreachp h c fn d = foreach_files foreachp h (files (configs h c)) fn 0 d"

text \<open>
  \<open>git_config_set_string\<close> (lines 203-215) and \<open>git_config_set_bool\<close> (lines 198-201),
  whose \<open>value\<close> is an \<open>int\<close>.
\<close>

definition git_config_set_string ::
  "'b set_fn \<Rightarrow> 'b heap \<Rightarrow> cfg_ptr \<Rightarrow> string \<Rightarrow> string \<Rightarrow> (git_error + unit) \<times> 'b heap"
where
  "git_config_set_string setp h c name value =
     (case files (configs h c) of
        [] \<Rightarrow> (Inl GIT_EINVALIDARGS, h)
      | internal # _ \<Rightarrow>
          (case setp (backends h (file internal)) name value of
             (ret, b') \<Rightarrow> (ret, h\<lparr>backends := (backends h)(file internal := b')\<rparr>)))"

definition git_config_set_bool ::
  "'b set_fn \<Rightarrow> 'b heap \<Rightarrow> cfg_ptr \<Rightarrow> string \<Rightarrow> 32 word \<Rightarrow> (git_error + unit) \<times> 'b heap"
where
  "git_config_set_bool setp h c name value =
     git_config_set_string setp h c name (if value \<noteq> 0 then ''true'' else ''false'')"

text \<open>\<open>git_config_get_string\<close> (lines 345-357).\<close>

definition git_config_get_string ::
  "'b get_fn \<Rightarrow> 'b heap \<Rightarrow> cfg_ptr \<Rightarrow> string \<Rightarrow> git_error + string option"
where
  "git_config_get_string getp h c name =
     (case files (configs h c) of
        [] \<Rightarrow> Inl GIT_EINVALIDARGS
      | internal # _ \<Rightarrow> getp (backends h (file internal)) name)"

subsection \<open>A backend that keeps its variables in memory\<close>

text \<open>
  Modelled from the spec: the concrete backends that implement \<open>get\<close>, \<open>set\<close> and
  \<open>foreach\<close> are not part of \<open>src/config.c\<close>. The data of this backend is the list
  of its stored variables, a name with a value that is \<open>None\<close> when the variable has
  no assigned value, and the three operations follow the spec's backend contract:
  \<open>get\<close> looks one value up within this backend only and fails with NotFound if it
  is absent; \<open>set\<close> updates one value within this backend only; \<open>foreach\<close> invokes the
  callback once per stored variable, stops early and returns the callback's value on
  the first nonzero result.
\<close>

type_synonym backend_vars = "(string \<times> string option) list"

definition file_get :: "backend_vars get_fn" where
  "file_get b name =
     (case map_of (data b) name of
        None \<Rightarrow> Inl GIT_ENOTFOUND
      | Some v \<Rightarrow> Inr v)"

definition file_set :: "backend_vars set_fn" where
  "file_set b name value = (Inr (), b\<lparr>data := AList.update name (Some value) (data b)\<rparr>)"

fun foreach_vars :: "backend_vars \<Rightarrow> 'd config_callback \<Rightarrow> 'd \<Rightarrow> int \<times> 'd" where
  "foreach_vars [] fn d = (0, d)"
| "foreach_vars (kv # rest) fn d =
     (case fn (fst kv) d of
        (r, d') \<Rightarrow> if r \<noteq> 0 then (r, d') else foreach_vars rest fn d')"

definition file_foreach :: "(backend_vars, 'd) foreach_fn" where
  "file_foreach b fn d = foreach_vars (data b) fn d"

definition file_names :: "backend_vars git_config_file \<Rightarrow> string list" where
  "file_names b = map fst (data b)"

subsection \<open>Order of the sequence, and what an iteration should do\<close>

text \<open>
  The sequence of a store is in descending order of priority when no entry is followed,
  at any distance, by one of a higher priority. A priority is small when it lies
  between \<open>- 2 ^ 30\<close> and \<open>2 ^ 30 - 1\<close>: the difference of two small priorities is an
  \<open>int\<close>.
\<close>

definition sorted_desc :: "file_internal list \<Rightarrow> bool" where
  "sorted_desc v = sorted_wrt (\<lambda>a b. sint (priority b) \<le> sint (priority a)) v"

definition small_priority :: "file_internal \<Rightarrow> bool" where
  "small_priority e \<longleftrightarrow> - (2 ^ 30) \<le> sint (priority e) \<and> sint (priority e) < 2 ^ 30"

text \<open>
  The names a store holds, backend after backend in the order of the store's sequence
  (index 0 first), where \<open>names\<close> gives the stored names of one backend in the order
  in which its \<open>foreach\<close> visits them; and the iteration the spec describes over such
  a list of names: the callback is invoked on one name after the other, the first
  nonzero value it returns ends the iteration and is the result, and the result is 0
  when the list is exhausted.
\<close>

definition stored_names ::
  "('b git_config_file \<Rightarrow> string list) \<Rightarrow> 'b heap \<Rightarrow> cfg_ptr \<Rightarrow> string list"
where
  "stored_names names h c =
     concat (map (\<lambda>internal. names (backends h (file internal))) (files (configs h c)))"

fun visit_names :: "string list \<Rightarrow> 'd config_callback \<Rightarrow> 'd \<Rightarrow> int \<times> 'd" where
  "visit_names [] fn d = (0, d)"
| "visit_names (k # ks) fn d =
     (case fn k d of
        (r, d') \<Rightarrow> if r \<noteq> 0 then (r, d') else visit_names ks fn d')"

text \<open>A callback that returns \<open>g name\<close> and appends the name to the log it is given.\<close>

definition logging :: "(string \<Rightarrow> int) \<Rightarrow> string list config_callback" where
  "logging g name log = (g name, log @ [name])"

subsection \<open>Two stores used as examples\<close>

text \<open>
  The store of \<open>git_config_new\<close> has no entries. In the empty heap every store is new
  and every backend is unregistered and holds no variable. In \<open>two_backends\<close>,
  backend 1 holds \<open>x = 1\<close> and \<open>y = 2\<close> and backend 2 holds \<open>z\<close> with no value. In
  \<open>store_AB\<close> the store 0 registers backend 1 with priority 1, then backend 2 with
  priority 2. In \<open>store_extreme\<close> it registers backend 1 with priority \<open>INT_MAX\<close>,
  then backend 2 with priority \<open>-2\<close>.
\<close>

definition empty_heap :: "backend_vars heap" where
  "empty_heap = \<lparr>configs = (\<lambda>_. \<lparr>files = []\<rparr>), backends = (\<lambda>_. \<lparr>cfg = None, data = []\<rparr>)\<rparr>"

definition two_backends :: "backend_vars heap" where
  "two_backends =
     empty_heap\<lparr>backends := (backends empty_heap)
       (1 := \<lparr>cfg = None, data = [(''x'', Some ''1''), (''y'', Some ''2'')]\<rparr>,
        2 := \<lparr>cfg = None, data = [(''z'', None)]\<rparr>)\<rparr>"

definition store_AB :: "backend_vars heap" where
  "store_AB =
     snd (git_config_add_file (snd (git_config_add_file two_backends True True 0 1 1))
            True True 0 2 2)"

definition store_extreme :: "backend_vars heap" where
  "store_extreme =
     snd (git_config_add_file (snd (git_config_add_file two_backends True True 0 1 2147483647))
            True True 0 2 (- 2))"

section \<open>Properties of the value coercions\<close>

lemmas strtol_unfold = git__strtol32_def strip_sign_def detect_base_def digit_value_def

lemma sint_mult_fits:
  fixes num :: "64 word"
  assumes "- (2 ^ 63) \<le> sint num * k" and "sint num * k < 2 ^ 63" and "sint (w :: 64 word) = k"
  shows "sint (num * w) = sint num * k"
  using assms by (simp add: sint_word_ariths signed_take_bit_int_eq_self)

text \<open>
  Claim C5, as amended. Let the literal parser read the number \<open>num\<close> from the value and
  stop at \<open>num_end\<close>. With nothing left the result is \<open>num\<close>, unscaled. With exactly one
  unit letter left the result is the number times 1024 for \<open>k\<close>/\<open>K\<close>, times
  \<open>1024 * 1024\<close> for \<open>m\<close>/\<open>M\<close> and times \<open>1024 * 1024 * 1024\<close> for \<open>g\<close>/\<open>G\<close>,
  provided that this product is a value of \<open>long int\<close>, that is, lies between \<open>- 2 ^ 63\<close>
  and \<open>2 ^ 63 - 1\<close>.
\<close>

theorem parse_long_scales_when_representable:
  assumes "strtol value = Inr (num, num_end)"
  shows "(num_end = [] \<longrightarrow> git_config__parse_long strtol name value = Inr num) \<and>
    (\<forall>c. num_end = [c] \<and> (c = CHR ''k'' \<or> c = CHR ''K'') \<and>
          - (2 ^ 63) \<le> sint num * 1024 \<and> sint num * 1024 < 2 ^ 63 \<longrightarrow>
       (\<exists>r. git_config__parse_long strtol name value = Inr r \<and> sint r = sint num * 1024)) \<and>
    (\<forall>c. num_end = [c] \<and> (c = CHR ''m'' \<or> c = CHR ''M'') \<and>
          - (2 ^ 63) \<le> sint num * (1024 * 1024) \<and> sint num * (1024 * 1024) < 2 ^ 63 \<longrightarrow>
       (\<exists>r. git_config__parse_long strtol name value = Inr r \<and>
            sint r = sint num * (1024 * 1024))) \<and>
    (\<forall>c. num_end = [c] \<and> (c = CHR ''g'' \<or> c = CHR ''G'') \<and>
          - (2 ^ 63) \<le> sint num * (1024 * 1024 * 1024) \<and>
          sint num * (1024 * 1024 * 1024) < 2 ^ 63 \<longrightarrow>
       (\<exists>r. git_config__parse_long strtol name value = Inr r \<and>
            sint r = sint num * (1024 * 1024 * 1024)))"
proof (intro conjI allI impI)
  assume "num_end = []"
  with assms show "git_config__parse_long strtol name value = Inr num"
    by (simp add: git_config__parse_long_def)
next
  fix c
  assume a: "num_end = [c] \<and> (c = CHR ''k'' \<or> c = CHR ''K'') \<and>
          - (2 ^ 63) \<le> sint num * 1024 \<and> sint num * 1024 < 2 ^ 63"
  have "sint (num * 1024) = sint num * 1024"
    using a by (intro sint_mult_fits) simp_all
  moreover have "git_config__parse_long strtol name value = Inr (num * 1024)"
    using assms a by (auto simp: git_config__parse_long_def)
  ultimately show
    "\<exists>r. git_config__parse_long strtol name value = Inr r \<and> sint r = sint num * 1024"
    by simp
next
  fix c
  assume a: "num_end = [c] \<and> (c = CHR ''m'' \<or> c = CHR ''M'') \<and>
          - (2 ^ 63) \<le> sint num * (1024 * 1024) \<and> sint num * (1024 * 1024) < 2 ^ 63"
  have "sint (num * (1024 * 1024)) = sint num * (1024 * 1024)"
    using a by (intro sint_mult_fits) simp_all
  moreover have "git_config__parse_long strtol name value = Inr (num * (1024 * 1024))"
    using assms a by (auto simp: git_config__parse_long_def)
  ultimately show
    "\<exists>r. git_config__parse_long strtol name value = Inr r \<and> sint r = sint num * (1024 * 1024)"
    by simp
next
  fix c
  assume a: "num_end = [c] \<and> (c = CHR ''g'' \<or> c = CHR ''G'') \<and>
          - (2 ^ 63) \<le> sint num * (1024 * 1024 * 1024) \<and>
          sint num * (1024 * 1024 * 1024) < 2 ^ 63"
  have "sint (num * (1024 * 1024 * 1024)) = sint num * (1024 * 1024 * 1024)"
    using a by (intro sint_mult_fits) simp_all
  moreover have "git_config__parse_long strtol name value = Inr (num * (1024 * 1024 * 1024))"
    using assms a by (auto simp: git_config__parse_long_def)
  ultimately show
    "\<exists>r. git_config__parse_long strtol name value = Inr r \<and>
         sint r = sint num * (1024 * 1024 * 1024)"
    by simp
qed

text \<open>
  The theorem at \<open>10k\<close> and \<open>2G\<close>, read by \<open>git__strtol32\<close>: 10240 and
  \<open>2 * 1024 * 1024 * 1024\<close>; and a value without a suffix.
\<close>

theorem parse_long_scales_when_representable_witness:
  "git__strtol32 ''10k'' = Inr (10, ''k'') \<and>
   git_config__parse_long git__strtol32 ''core.bigfilethreshold'' ''10k'' = Inr 10240 \<and>
   git__strtol32 ''2G'' = Inr (2, ''G'') \<and>
   git_config__parse_long git__strtol32 ''core.bigfilethreshold'' ''2G''
     = Inr (2 * 1024 * 1024 * 1024) \<and>
   git_config__parse_long git__strtol32 ''core.bigfilethreshold'' ''7'' = Inr 7"
  using parse_long_scales_when_representable
      [of git__strtol32 "''10k''" 10 "''k''" "''core.bigfilethreshold''"]
    parse_long_scales_when_representable
      [of git__strtol32 "''2G''" 2 "''G''" "''core.bigfilethreshold''"]
  by (simp add: strtol_unfold git_config__parse_long_def)

text \<open>
  Claim C5 as stated fails where the product leaves \<open>long int\<close>: \<open>8589934592\<close> is
  \<open>2 ^ 33\<close>, a literal that a \<open>long int\<close> holds, and \<open>8589934592G\<close> should be
  \<open>2 ^ 63\<close>; the multiplication wraps around to \<open>- 2 ^ 63\<close>.
\<close>

theorem parse_long_overflow_counterexample:
  "git__strtol32 ''8589934592G'' = Inr (8589934592, ''G'') \<and>
   git_config__parse_long git__strtol32 ''core.bigfilethreshold'' ''8589934592G''
     = Inr (- 9223372036854775808) \<and>
   \<not> (\<exists>r. git_config__parse_long git__strtol32 ''core.bigfilethreshold'' ''8589934592G'' = Inr r
          \<and> sint r = 8589934592 * (1024 * 1024 * 1024))"
  by (simp add: strtol_unfold git_config__parse_long_def)

text \<open>
  What \<open>git_config__parse_long\<close> does with the literal parser's answer: a failure is
  handed on with its code; a character other than the six unit letters at the end of
  the literal is \<open>GIT_EINVALIDTYPE\<close>; and only the first character after the literal
  is read, so whatever follows it has no influence.
\<close>

lemma parse_long_literal_failure:
  "strtol value = Inl ret \<Longrightarrow> git_config__parse_long strtol name value = Inl ret"
  by (simp add: git_config__parse_long_def)

lemma parse_long_rejects_other_character:
  assumes "strtol value = Inr (num, c # rest)"
    and "c \<notin> {CHR ''k'', CHR ''K'', CHR ''m'', CHR ''M'', CHR ''g'', CHR ''G''}"
  shows "git_config__parse_long strtol name value = Inl GIT_EINVALIDTYPE"
  using assms by (simp add: git_config__parse_long_def)

lemma parse_long_ignores_after_unit:
  assumes "strtol value = Inr (num, c # rest)"
  shows "git_config__parse_long strtol name value
       = git_config__parse_long (\<lambda>_. Inr (num, [c])) name value"
  using assms by (simp add: git_config__parse_long_def)

text \<open>
  Claim C4 says that any character left after the optional unit suffix makes
  \<open>git_config__parse_long\<close> fail with TypeError. The \<open>switch\<close> looks at \<open>*num_end\<close>
  alone: in \<open>10kx\<close> the literal ends at \<open>k\<close>, the value is scaled, and the \<open>x\<close> after
  the suffix is never read, so the call succeeds with 10240. A character that is not a
  unit letter directly after the literal, as in \<open>5x\<close>, is rejected.
\<close>

theorem parse_long_accepts_trailing_after_unit:
  "git__strtol32 ''10kx'' = Inr (10, ''kx'') \<and>
   git_config__parse_long git__strtol32 ''core.packedgitlimit'' ''10kx'' = Inr 10240 \<and>
   git_config__parse_long git__strtol32 ''core.packedgitlimit'' ''5x'' = Inl GIT_EINVALIDTYPE"
  by (simp add: strtol_unfold git_config__parse_long_def)

text \<open>
  The branches of \<open>git_config__parse_bool\<close>: a missing value, the two sets of tokens,
  and the integer path, which fails exactly when the long parse fails and otherwise
  tests the low 32 bits of the parsed number.
\<close>

lemma parse_bool_absent: "git_config__parse_bool strtol name None = Inr 1"
  by (simp add: git_config__parse_bool_def)

lemma parse_bool_true_tokens:
  "strcasecmp v ''true'' = 0 \<or> strcasecmp v ''yes'' = 0 \<or> strcasecmp v ''on'' = 0
     \<Longrightarrow> git_config__parse_bool strtol name (Some v) = Inr 1"
  by (simp add: git_config__parse_bool_def)

lemma parse_bool_false_tokens:
  "\<not> (strcasecmp v ''true'' = 0 \<or> strcasecmp v ''yes'' = 0 \<or> strcasecmp v ''on'' = 0) \<Longrightarrow>
   strcasecmp v ''false'' = 0 \<or> strcasecmp v ''no'' = 0 \<or> strcasecmp v ''off'' = 0
     \<Longrightarrow> git_config__parse_bool strtol name (Some v) = Inr 0"
  by (simp add: git_config__parse_bool_def)

lemma parse_bool_integer:
  assumes "\<not> (strcasecmp v ''true'' = 0 \<or> strcasecmp v ''yes'' = 0 \<or> strcasecmp v ''on'' = 0)"
    and "\<not> (strcasecmp v ''false'' = 0 \<or> strcasecmp v ''no'' = 0 \<or> strcasecmp v ''off'' = 0)"
  shows "git_config__parse_bool strtol name (Some v) =
     (case git_config__parse_long strtol name v of
        Inl e \<Rightarrow> Inl e
      | Inr n \<Rightarrow> Inr (if (ucast n :: 32 word) \<noteq> 0 then 1 else 0))"
  using assms
  by (simp add: git_config__parse_bool_def git_config__parse_int_def split: sum.splits)

lemma parse_bool_examples:
  "git_config__parse_bool git__strtol32 ''core.bare'' (Some ''On'') = Inr 1"
  "git_config__parse_bool git__strtol32 ''core.bare'' (Some ''0'') = Inr 0"
  "git_config__parse_bool git__strtol32 ''core.bare'' (Some ''2'') = Inr 1"
  "git_config__parse_bool git__strtol32 ''core.bare'' (Some ''banana'') = Inl GIT_EINVALIDTYPE"
  by (simp_all add: git_config__parse_bool_def git_config__parse_int_def
        git_config__parse_long_def strtol_unfold tolower_code_def)

text \<open>
  Claim C6 says that a value that is none of the six tokens is parsed as an integer and
  that the result is true iff that integer is nonzero. \<open>git_config__parse_bool\<close> goes
  through \<open>git_config__parse_int\<close>, whose cast keeps the low 32 bits of the
  \<open>long int\<close>: \<open>4g\<close> parses to \<open>4294967296\<close>, which is not zero, the cast makes it
  0, and the boolean is false.
\<close>

theorem parse_bool_false_for_nonzero_integer:
  "git_config__parse_long git__strtol32 ''core.bare'' ''4g'' = Inr 4294967296 \<and>
   git_config__parse_bool git__strtol32 ''core.bare'' (Some ''4g'') = Inr 0"
  by (simp add: git_config__parse_bool_def git_config__parse_int_def
        git_config__parse_long_def strtol_unfold tolower_code_def)

section \<open>Properties of the store\<close>

lemmas add_file_unfold = git_config_add_file_def git_vector_insert_def git_vector_sort_def
  config_backend_cmp_def

subsection \<open>The in-memory backend keeps the backend contract\<close>

lemma file_get_present: "map_of (data b) name = Some v \<Longrightarrow> file_get b name = Inr v"
  by (simp add: file_get_def)

lemma file_get_absent: "map_of (data b) name = None \<Longrightarrow> file_get b name = Inl GIT_ENOTFOUND"
  by (simp add: file_get_def)

lemma file_set_then_get:
  "fst (file_set b name value) = Inr () \<and>
   file_get (snd (file_set b name value)) name = Inr (Some value)"
  by (simp add: file_set_def file_get_def update_conv')

lemma file_foreach_visit: "file_foreach b fn d = visit_names (file_names b) fn d"
proof -
  have "foreach_vars kvs fn d = visit_names (map fst kvs) fn d" for kvs
    by (induction kvs arbitrary: d) (auto split: prod.splits)
  then show ?thesis by (simp add: file_foreach_def file_names_def)
qed

subsection \<open>Registration and the order of the sequence\<close>

lemma set_insert_by: "set (insert_by cmp x ys) = insert x (set ys)"
  by (induction ys) auto

lemma set_git_vector_sort: "set (git_vector_sort cmp v) = set v"
  by (induction v) (simp_all add: git_vector_sort_def set_insert_by)

lemma length_insert_by: "length (insert_by cmp x ys) = Suc (length ys)"
  by (induction ys) auto

lemma length_git_vector_sort: "length (git_vector_sort cmp v) = length v"
  by (induction v) (simp_all add: git_vector_sort_def length_insert_by)

text \<open>
  On small priorities the comparator is the true difference, the sort puts the sequence
  in descending order, and a successful registration keeps both facts.
\<close>

lemma cmp_small:
  assumes "small_priority a" and "small_priority b"
  shows "sint (config_backend_cmp a b) = sint (priority b) - sint (priority a)"
  using assms
  by (simp add: config_backend_cmp_def small_priority_def sint_word_ariths
      signed_take_bit_int_eq_self)

lemma sorted_desc_insert_by:
  assumes "small_priority x" and "\<forall>y\<in>set ys. small_priority y" and "sorted_desc ys"
  shows "sorted_desc (insert_by config_backend_cmp x ys)"
  using assms
proof (induction ys)
  case Nil
  then show ?case by (simp add: sorted_desc_def)
next
  case (Cons y ys)
  then show ?case
    by (auto simp: sorted_desc_def cmp_small set_insert_by)
qed

lemma sorted_desc_git_vector_sort:
  assumes "\<forall>y\<in>set v. small_priority y"
  shows "sorted_desc (git_vector_sort config_backend_cmp v)"
  using assms
proof (induction v)
  case Nil
  then show ?case by (simp add: sorted_desc_def git_vector_sort_def)
next
  case (Cons a v)
  then have "sorted_desc (insert_by config_backend_cmp a (git_vector_sort config_backend_cmp v))"
    by (intro sorted_desc_insert_by) (simp_all add: set_git_vector_sort)
  then show ?case by (simp add: git_vector_sort_def)
qed

lemma add_file_sorted_small:
  assumes "git_config_add_file h malloc_ok insert_ok c f prio = (Inr (), h')"
    and "\<forall>y\<in>set (files (configs h c)). small_priority y"
    and "- (2 ^ 30) \<le> sint prio" and "sint prio < 2 ^ 30"
  shows "sorted_desc (files (configs h' c)) \<and> (\<forall>y\<in>set (files (configs h' c)). small_priority y)"
proof -
  let ?v = "files (configs h c) @ [\<lparr>file = f, priority = prio\<rparr>]"
  have small: "\<forall>y\<in>set ?v. small_priority y"
    using assms(2-4) by (simp add: small_priority_def)
  then have "sorted_desc (git_vector_sort config_backend_cmp ?v)"
    by (rule sorted_desc_git_vector_sort)
  moreover have "files (configs h' c) = git_vector_sort config_backend_cmp ?v"
    using assms(1)
    by (auto simp: git_config_add_file_def git_vector_insert_def Let_def split: if_splits)
  ultimately show ?thesis using small by (simp add: set_git_vector_sort)
qed

lemma add_file_index_0_highest_small:
  assumes "git_config_add_file h malloc_ok insert_ok c f prio = (Inr (), h')"
    and "\<forall>y\<in>set (files (configs h c)). small_priority y"
    and "- (2 ^ 30) \<le> sint prio" and "sint prio < 2 ^ 30"
  shows "\<exists>internal rest. files (configs h' c) = internal # rest \<and>
           (\<forall>x\<in>set rest. sint (priority x) \<le> sint (priority internal))"
proof -
  have s: "sorted_desc (files (configs h' c))"
    using add_file_sorted_small [OF assms] by simp
  have "files (configs h' c)
      = git_vector_sort config_backend_cmp (files (configs h c) @ [\<lparr>file = f, priority = prio\<rparr>])"
    using assms(1)
    by (auto simp: git_config_add_file_def git_vector_insert_def Let_def split: if_splits)
  then have "length (files (configs h' c)) = Suc (length (files (configs h c)))"
    by (simp add: length_git_vector_sort)
  then obtain internal rest where "files (configs h' c) = internal # rest"
    by (cases "files (configs h' c)") simp_all
  with s show ?thesis by (simp add: sorted_desc_def)
qed

text \<open>
  Claim C2 says that after every successful \<open>git_config_add_file\<close> the sequence is in
  descending order of priority. The comparator subtracts two \<open>int\<close>s, and the
  difference of \<open>INT_MAX\<close> and \<open>-2\<close> is not an \<open>int\<close>: compared in either direction, the
  entry of priority \<open>-2\<close> comes out as the one to put first. Registering the two
  backends succeeds and leaves the lower priority at index 0.
\<close>

theorem add_file_unsorted_after_overflow:
  "fst (git_config_add_file two_backends True True 0 1 2147483647) = Inr () \<and>
   fst (git_config_add_file (snd (git_config_add_file two_backends True True 0 1 2147483647))
          True True 0 2 (- 2)) = Inr () \<and>
   sint (config_backend_cmp \<lparr>file = 2, priority = - 2\<rparr> \<lparr>file = 1, priority = 2147483647\<rparr>)
     = - 2147483647 \<and>
   sint (config_backend_cmp \<lparr>file = 1, priority = 2147483647\<rparr> \<lparr>file = 2, priority = - 2\<rparr>)
     = 2147483647 \<and>
   files (configs store_extreme 0)
     = [\<lparr>file = 2, priority = - 2\<rparr>, \<lparr>file = 1, priority = 2147483647\<rparr>] \<and>
   \<not> sorted_desc (files (configs store_extreme 0))"
  by (simp add: add_file_unfold empty_heap_def two_backends_def store_extreme_def sorted_desc_def)

text \<open>
  Claim C8. \<open>git_config_add_file\<close> succeeds exactly when both allocations do. When it
  fails the status is \<open>GIT_ENOMEM\<close> and the heap is the one before the call: the
  store's sequence is as it was and the backend's \<open>cfg\<close> pointer has not been written.
  When it succeeds the backend's \<open>cfg\<close> points at the store and the sequence holds the
  new entry besides the old ones.
\<close>

theorem add_file_failure_changes_nothing:
  "(fst (git_config_add_file h malloc_ok insert_ok c f prio) = Inr () \<longleftrightarrow> malloc_ok \<and> insert_ok) \<and>
   (\<not> (malloc_ok \<and> insert_ok) \<longrightarrow>
      git_config_add_file h malloc_ok insert_ok c f prio = (Inl GIT_ENOMEM, h)) \<and>
   (\<not> (malloc_ok \<and> insert_ok) \<longrightarrow>
      files (configs (snd (git_config_add_file h malloc_ok insert_ok c f prio)) c)
        = files (configs h c) \<and>
      cfg (backends (snd (git_config_add_file h malloc_ok insert_ok c f prio)) f)
        = cfg (backends h f)) \<and>
   (malloc_ok \<and> insert_ok \<longrightarrow>
      cfg (backends (snd (git_config_add_file h malloc_ok insert_ok c f prio)) f) = Some c \<and>
      set (files (configs (snd (git_config_add_file h malloc_ok insert_ok c f prio)) c))
        = insert \<lparr>file = f, priority = prio\<rparr> (set (files (configs h c))) \<and>
      length (files (configs (snd (git_config_add_file h malloc_ok insert_ok c f prio)) c))
        = Suc (length (files (configs h c))))"
  by (simp add: git_config_add_file_def git_vector_insert_def Let_def
      set_git_vector_sort length_git_vector_sort)

text \<open>
  Registering backend 3 in \<open>store_AB\<close> with a failing insertion, with a failing
  \<open>git__malloc\<close>, and with both succeeding.
\<close>

theorem add_file_failure_changes_nothing_witness:
  "git_config_add_file store_AB True False 0 3 7 = (Inl GIT_ENOMEM, store_AB) \<and>
   git_config_add_file store_AB False True 0 3 7 = (Inl GIT_ENOMEM, store_AB) \<and>
   cfg (backends store_AB 3) = None \<and>
   cfg (backends (snd (git_config_add_file store_AB True True 0 3 7)) 3) = Some 0"
  using add_file_failure_changes_nothing [of store_AB True False 0 3 7]
    add_file_failure_changes_nothing [of store_AB False True 0 3 7]
    add_file_failure_changes_nothing [of store_AB True True 0 3 7]
  by (simp add: add_file_unfold empty_heap_def two_backends_def store_AB_def)

subsection \<open>Reading and writing\<close>

text \<open>
  In a store with at least one entry, \<open>git_config_get_string\<close> returns what the
  \<open>get\<close> of the backend at index 0 returns for the name: its value when that
  backend has one, \<open>GIT_ENOTFOUND\<close> when that backend reports the name absent. No other
  backend has any influence: two heaps that agree on the entry at index 0 and on its
  backend give the same answer, whatever the rest of the sequence and the other
  backends hold. In a sequence in descending order of priority the entry at index 0 has
  the highest priority.
\<close>

lemma get_string_reads_index_0:
  assumes "files (configs h c) = internal # rest"
  shows "git_config_get_string getp h c name = getp (backends h (file internal)) name \<and>
    (\<forall>v. getp (backends h (file internal)) name = Inr v \<longrightarrow>
         git_config_get_string getp h c name = Inr v) \<and>
    (getp (backends h (file internal)) name = Inl GIT_ENOTFOUND \<longrightarrow>
         git_config_get_string getp h c name = Inl GIT_ENOTFOUND) \<and>
    (\<forall>h' rest'. files (configs h' c) = internal # rest' \<and>
         backends h' (file internal) = backends h (file internal) \<longrightarrow>
         git_config_get_string getp h' c name = git_config_get_string getp h c name) \<and>
    (sorted_desc (internal # rest) \<longrightarrow>
         (\<forall>x\<in>set rest. sint (priority x) \<le> sint (priority internal)))"
  using assms
  by (simp add: git_config_get_string_def sorted_desc_def)

text \<open>
  In \<open>store_AB\<close> backend 1 (priority 1) holds \<open>x\<close> and backend 2 (priority 2) does
  not: reading \<open>x\<close> from the store is \<open>GIT_ENOTFOUND\<close>.
\<close>

lemma get_string_store_AB:
  "files (configs store_AB 0) = [\<lparr>file = 2, priority = 2\<rparr>, \<lparr>file = 1, priority = 1\<rparr>] \<and>
   sorted_desc (files (configs store_AB 0)) \<and>
   file_get (backends store_AB 1) ''x'' = Inr (Some ''1'') \<and>
   file_get (backends store_AB 2) ''x'' = Inl GIT_ENOTFOUND \<and>
   git_config_get_string file_get store_AB 0 ''x'' = Inl GIT_ENOTFOUND \<and>
   git_config_get_string file_get store_AB 0 ''z'' = Inr None"
  using get_string_reads_index_0
      [of store_AB 0 "\<lparr>file = 2, priority = 2\<rparr>" "[\<lparr>file = 1, priority = 1\<rparr>]" file_get "''x''"]
    get_string_reads_index_0
      [of store_AB 0 "\<lparr>file = 2, priority = 2\<rparr>" "[\<lparr>file = 1, priority = 1\<rparr>]" file_get "''z''"]
  by (simp add: add_file_unfold empty_heap_def two_backends_def store_AB_def file_get_def
      sorted_desc_def)

text \<open>
  Claim C1 says that \<open>git_config_get_string\<close> consults the highest-priority backend
  and returns its value when the name is present there. In \<open>store_extreme\<close> both
  registrations succeed, and the comparator's overflow leaves backend 2, of priority
  \<open>-2\<close>, at index 0, before backend 1, of priority \<open>INT_MAX\<close>. Backend 1 holds \<open>x\<close>,
  and reading \<open>x\<close> from the store is \<open>GIT_ENOTFOUND\<close>; reading \<open>z\<close> returns what
  the backend of the lowest priority holds.
\<close>

theorem get_string_misses_highest_priority:
  "fst (git_config_add_file two_backends True True 0 1 2147483647) = Inr () \<and>
   fst (git_config_add_file (snd (git_config_add_file two_backends True True 0 1 2147483647))
          True True 0 2 (- 2)) = Inr () \<and>
   files (configs store_extreme 0)
     = [\<lparr>file = 2, priority = - 2\<rparr>, \<lparr>file = 1, priority = 2147483647\<rparr>] \<and>
   sint (priority \<lparr>file = 2, priority = - 2\<rparr>)
     < sint (priority \<lparr>file = 1, priority = 2147483647\<rparr>) \<and>
   file_get (backends store_extreme 1) ''x'' = Inr (Some ''1'') \<and>
   git_config_get_string file_get store_extreme 0 ''x'' = Inl GIT_ENOTFOUND \<and>
   git_config_get_string file_get store_extreme 0 ''z'' = Inr None"
  by (simp add: add_file_unfold empty_heap_def two_backends_def store_extreme_def
      git_config_get_string_def file_get_def)

text \<open>
  Claim C7. On a store without entries \<open>git_config_get_string\<close> and
  \<open>git_config_set_string\<close> fail with \<open>GIT_EINVALIDARGS\<close>. The heap after the write is
  the heap before it, and the answers are the same whatever the backends of the heap
  are.
\<close>

theorem get_set_string_without_backend:
  assumes "files (configs h c) = []"
  shows "git_config_get_string getp h c name = Inl GIT_EINVALIDARGS \<and>
    git_config_set_string setp h c name value = (Inl GIT_EINVALIDARGS, h) \<and>
    (\<forall>bs. git_config_get_string getp (h\<lparr>backends := bs\<rparr>) c name = Inl GIT_EINVALIDARGS \<and>
          git_config_set_string setp (h\<lparr>backends := bs\<rparr>) c name value
            = (Inl GIT_EINVALIDARGS, h\<lparr>backends := bs\<rparr>))"
  using assms by (simp add: git_config_get_string_def git_config_set_string_def)

theorem get_set_string_without_backend_witness:
  "files (configs two_backends 0) = [] \<and>
   git_config_get_string file_get two_backends 0 ''x'' = Inl GIT_EINVALIDARGS \<and>
   git_config_set_string file_set two_backends 0 ''x'' ''1'' = (Inl GIT_EINVALIDARGS, two_backends)"
  using get_set_string_without_backend [of two_backends 0 file_get "''x''" file_set "''1''"]
  by (simp add: two_backends_def empty_heap_def)

text \<open>
  In a store with at least one entry, \<open>git_config_set_bool\<close> hands the
  string \<open>true\<close> for a nonzero value and \<open>false\<close> for zero to the \<open>set\<close> of the backend
  at index 0. When that backend stores it, so that its \<open>get\<close> reads the string back,
  the call succeeds, \<open>git_config_get_string\<close> on the store then returns exactly that
  string, and no other backend and no store has changed.
\<close>

lemma set_bool_round_trip_index_0:
  assumes "files (configs h c) = internal # rest"
    and "setp (backends h (file internal)) name (if value \<noteq> 0 then ''true'' else ''false'')
           = (Inr (), b')"
    and "getp b' name = Inr (Some (if value \<noteq> 0 then ''true'' else ''false''))"
  shows "git_config_set_bool setp h c name value
           = (Inr (), h\<lparr>backends := (backends h)(file internal := b')\<rparr>) \<and>
    (value \<noteq> 0 \<longrightarrow>
       git_config_get_string getp (snd (git_config_set_bool setp h c name value)) c name
         = Inr (Some ''true'')) \<and>
    (value = 0 \<longrightarrow>
       git_config_get_string getp (snd (git_config_set_bool setp h c name value)) c name
         = Inr (Some ''false'')) \<and>
    (\<forall>p. p \<noteq> file internal \<longrightarrow>
       backends (snd (git_config_set_bool setp h c name value)) p = backends h p) \<and>
    configs (snd (git_config_set_bool setp h c name value)) = configs h"
proof (cases "value = 0")
  case True
  with assms show ?thesis
    by (simp add: git_config_set_bool_def git_config_set_string_def git_config_get_string_def)
next
  case False
  with assms show ?thesis
    by (simp add: git_config_set_bool_def git_config_set_string_def git_config_get_string_def)
qed

text \<open>Setting \<open>flag\<close> to true in \<open>store_AB\<close>, whose backend at index 0 is backend 2.\<close>

lemma set_bool_store_AB:
  "files (configs store_AB 0) = [\<lparr>file = 2, priority = 2\<rparr>, \<lparr>file = 1, priority = 1\<rparr>] \<and>
   file_set (backends store_AB 2) ''flag'' ''true''
     = (Inr (), \<lparr>cfg = Some 0, data = [(''z'', None), (''flag'', Some ''true'')]\<rparr>) \<and>
   file_get \<lparr>cfg = Some 0, data = [(''z'', None), (''flag'', Some ''true'')]\<rparr> ''flag''
     = Inr (Some ''true'') \<and>
   git_config_get_string file_get (snd (git_config_set_bool file_set store_AB 0 ''flag'' 1)) 0 ''flag''
     = Inr (Some ''true'') \<and>
   backends (snd (git_config_set_bool file_set store_AB 0 ''flag'' 1)) 1 = backends store_AB 1"
  using set_bool_round_trip_index_0
      [of store_AB 0 "\<lparr>file = 2, priority = 2\<rparr>" "[\<lparr>file = 1, priority = 1\<rparr>]" file_set "''flag''" 1
          "\<lparr>cfg = Some 0, data = [(''z'', None), (''flag'', Some ''true'')]\<rparr>" file_get]
  by (simp add: add_file_unfold empty_heap_def two_backends_def store_AB_def file_set_def
      file_get_def git_config_set_bool_def git_config_set_string_def git_config_get_string_def)

text \<open>With in-memory backends the write always succeeds and is read back.\<close>

lemma in_memory_set_bool_round_trip:
  assumes "files (configs h c) = internal # rest"
  shows "fst (git_config_set_bool file_set h c name value) = Inr () \<and>
    git_config_get_string file_get (snd (git_config_set_bool file_set h c name value)) c name
      = Inr (Some (if value \<noteq> 0 then ''true'' else ''false''))"
  using assms
  by (simp add: git_config_set_bool_def git_config_set_string_def git_config_get_string_def
      file_set_def file_get_def update_conv')

text \<open>
  Claim C9 says that \<open>git_config_set_bool\<close> stores the canonical string in the
  highest-priority backend, so that \<open>git_config_get_string\<close> then returns it. In
  \<open>store_extreme\<close>, where the comparator's overflow has left the backend of priority
  \<open>-2\<close> at index 0, the call succeeds and the string \<open>true\<close> is stored in that
  backend; backend 1, of priority \<open>INT_MAX\<close>, is as it was and does not hold the
  variable. Reading the variable back from the store does return \<open>true\<close>.
\<close>

theorem set_bool_writes_lowest_priority_backend:
  "files (configs store_extreme 0)
     = [\<lparr>file = 2, priority = - 2\<rparr>, \<lparr>file = 1, priority = 2147483647\<rparr>] \<and>
   sint (priority \<lparr>file = 2, priority = - 2\<rparr>)
     < sint (priority \<lparr>file = 1, priority = 2147483647\<rparr>) \<and>
   fst (git_config_set_bool file_set store_extreme 0 ''flag'' 1) = Inr () \<and>
   data (backends (snd (git_config_set_bool file_set store_extreme 0 ''flag'' 1)) 2)
     = [(''z'', None), (''flag'', Some ''true'')] \<and>
   backends (snd (git_config_set_bool file_set store_extreme 0 ''flag'' 1)) 1
     = backends store_extreme 1 \<and>
   file_get (backends (snd (git_config_set_bool file_set store_extreme 0 ''flag'' 1)) 1) ''flag''
     = Inl GIT_ENOTFOUND \<and>
   git_config_get_string file_get (snd (git_config_set_bool file_set store_extreme 0 ''flag'' 1))
       0 ''flag'' = Inr (Some ''true'')"
  by (simp add: add_file_unfold empty_heap_def two_backends_def store_extreme_def
      git_config_set_bool_def git_config_set_string_def git_config_get_string_def
      file_set_def file_get_def)

subsection \<open>Iteration\<close>

lemma visit_names_append:
  "visit_names (xs @ ys) fn d =
     (case visit_names xs fn d of (r, d') \<Rightarrow> if r \<noteq> 0 then (r, d') else visit_names ys fn d')"
  by (induction xs arbitrary: d) (auto split: prod.splits)

text \<open>
  The loop over the entries, when the \<open>foreach\<close> of every backend in the sequence
  keeps the backend contract: it is the iteration over the names of these backends,
  one backend after the other, unless \<open>ret\<close> is already nonzero.
\<close>

lemma foreach_files_visit:
  assumes "\<forall>e\<in>set es. \<forall>f s. foreachp (backends h (file e)) f s
             = visit_names (names (backends h (file e))) f s"
  shows "foreach_files foreachp h es fn ret d =
     (if ret = 0
      then visit_names (concat (map (\<lambda>internal. names (backends h (file internal))) es)) fn d
      else (ret, d))"
  using assms
proof (induction es arbitrary: ret d)
  case Nil
  then show ?case by simp
next
  case (Cons e es)
  show ?case
  proof (cases "ret = 0")
    case True
    obtain r d' where v: "visit_names (names (backends h (file e))) fn d = (r, d')"
      by (cases "visit_names (names (backends h (file e))) fn d")
    have "foreachp (backends h (file e)) fn d = (r, d')"
      using Cons.prems v by simp
    moreover have "foreach_files foreachp h es fn r d' =
       (if r = 0
        then visit_names (concat (map (\<lambda>internal. names (backends h (file internal))) es)) fn d'
        else (r, d'))"
      using Cons.prems by (intro Cons.IH) simp
    ultimately show ?thesis
      using True v by (simp add: visit_names_append)
  next
    case False
    then show ?thesis by simp
  qed
qed

lemma visit_names_all_zero:
  "\<forall>x\<in>set ks. \<forall>s. fst (fn x s) = 0 \<Longrightarrow> fst (visit_names ks fn d) = 0"
proof (induction ks arbitrary: d)
  case Nil
  then show ?case by simp
next
  case (Cons k ks)
  obtain r d' where f: "fn k d = (r, d')" by (cases "fn k d")
  with Cons.prems have "r = 0" by (metis fst_conv list.set_intros(1))
  with f Cons show ?case by simp
qed

lemma visit_names_stops:
  assumes "\<forall>x\<in>set pre. \<forall>s. fst (fn x s) = 0" and "\<forall>s. fst (fn k s) = r" and "r \<noteq> 0"
  shows "visit_names (pre @ k # post) fn d = visit_names (pre @ [k]) fn d \<and>
         fst (visit_names (pre @ k # post) fn d) = r"
proof -
  obtain r0 d0 where p: "visit_names pre fn d = (r0, d0)" by (cases "visit_names pre fn d")
  have "r0 = 0" using visit_names_all_zero [OF assms(1), of d] p by simp
  obtain r1 d1 where k: "fn k d0 = (r1, d1)" by (cases "fn k d0")
  have "r1 = r" using assms(2) k by (metis fst_conv)
  show ?thesis
    using p \<open>r0 = 0\<close> k \<open>r1 = r\<close> assms(3) by (simp add: visit_names_append)
qed

text \<open>The logging callback records exactly the names it was invoked on.\<close>

lemma visit_logging_all_zero:
  "\<forall>x\<in>set ks. g x = 0 \<Longrightarrow> visit_names ks (logging g) log = (0, log @ ks)"
  by (induction ks arbitrary: log) (simp_all add: logging_def)

lemma visit_logging_first_nonzero:
  assumes "\<forall>x\<in>set pre. g x = 0" and "g k \<noteq> 0"
  shows "visit_names (pre @ k # post) (logging g) log = (g k, log @ pre @ [k])"
  using assms
  by (simp add: visit_names_append visit_logging_all_zero) (simp add: logging_def)

text \<open>
  Let the \<open>foreach\<close> of every backend in the store's sequence keep the
  backend contract: it invokes the callback once per stored name, in the order
  \<open>names\<close>, stops at the first nonzero value and returns it. Then
  \<open>git_config_foreach\<close> is the iteration over the names of all backends, in the
  order of the sequence from index 0; in a sequence in descending order of priority
  a backend visited earlier has a priority at least as high as one visited later.
  When the callback returns 0 on the names before \<open>k\<close> and the
  nonzero value \<open>r\<close> on \<open>k\<close>, the outcome is that of an iteration that ends with \<open>k\<close>,
  the names after it, in this backend and in the later ones, are not visited, and the
  result is \<open>r\<close>. When the callback returns 0 on every name the result is 0.
\<close>

lemma foreach_visits_in_sequence_order:
  assumes "\<forall>e\<in>set (files (configs h c)). \<forall>f s.
             foreachp (backends h (file e)) f s = visit_names (names (backends h (file e))) f s"
  shows "git_config_foreach foreachp h c fn d = visit_names (stored_names names h c) fn d \<and>
   (\<forall>pre k post r.
      stored_names names h c = pre @ k # post \<and> (\<forall>x\<in>set pre. \<forall>s. fst (fn x s) = 0) \<and>
      (\<forall>s. fst (fn k s) = r) \<and> r \<noteq> 0 \<longrightarrow>
      git_config_foreach foreachp h c fn d = visit_names (pre @ [k]) fn d \<and>
      fst (git_config_foreach foreachp h c fn d) = r) \<and>
   ((\<forall>x\<in>set (stored_names names h c). \<forall>s. fst (fn x s) = 0) \<longrightarrow>
      fst (git_config_foreach foreachp h c fn d) = 0) \<and>
   (sorted_desc (files (configs h c)) \<longrightarrow>
      (\<forall>i j. i < j \<and> j < length (files (configs h c)) \<longrightarrow>
         sint (priority (files (configs h c) ! j)) \<le> sint (priority (files (configs h c) ! i))))"
proof -
  have eq: "git_config_foreach foreachp h c fn d = visit_names (stored_names names h c) fn d"
    using foreach_files_visit [OF assms, of fn 0 d]
    by (simp add: git_config_foreach_def stored_names_def)
  have stop: "git_config_foreach foreachp h c fn d = visit_names (pre @ [k]) fn d \<and>
      fst (git_config_foreach foreachp h c fn d) = r"
    if "stored_names names h c = pre @ k # post \<and> (\<forall>x\<in>set pre. \<forall>s. fst (fn x s) = 0) \<and>
      (\<forall>s. fst (fn k s) = r) \<and> r \<noteq> 0" for pre k post r
  proof -
    have sn: "stored_names names h c = pre @ k # post"
      using that by simp
    have "visit_names (pre @ k # post) fn d = visit_names (pre @ [k]) fn d \<and>
        fst (visit_names (pre @ k # post) fn d) = r"
      using that by (intro visit_names_stops) simp_all
    then show ?thesis
      unfolding eq sn .
  qed
  have none: "fst (git_config_foreach foreachp h c fn d) = 0"
    if "\<forall>x\<in>set (stored_names names h c). \<forall>s. fst (fn x s) = 0"
    using that visit_names_all_zero [of "stored_names names h c" fn d] by (simp add: eq)
  have order: "sint (priority (files (configs h c) ! j)) \<le> sint (priority (files (configs h c) ! i))"
    if "sorted_desc (files (configs h c))" and "i < j \<and> j < length (files (configs h c))" for i j
    using that by (simp add: sorted_desc_def sorted_wrt_iff_nth_less)
  show ?thesis
    using eq stop none order by blast
qed

text \<open>
  In \<open>store_AB\<close> the names are \<open>z\<close> of backend 2, then \<open>x\<close> and \<open>y\<close> of backend 1.
  A callback that returns 7 on \<open>x\<close> is invoked on \<open>z\<close> and \<open>x\<close> and not on \<open>y\<close>;
  one that returns \<open>-1\<close> on \<open>z\<close> is invoked on \<open>z\<close> alone and never reaches backend 1;
  one that returns 0 is invoked on all three.
\<close>

lemma foreach_store_AB:
  "sorted_desc (files (configs store_AB 0)) \<and>
   stored_names file_names store_AB 0 = [''z'', ''x'', ''y''] \<and>
   git_config_foreach file_foreach store_AB 0 (logging (\<lambda>k. if k = ''x'' then 7 else 0)) []
     = (7, [''z'', ''x'']) \<and>
   git_config_foreach file_foreach store_AB 0 (logging (\<lambda>k. if k = ''z'' then - 1 else 0)) []
     = (- 1, [''z'']) \<and>
   git_config_foreach file_foreach store_AB 0 (logging (\<lambda>k. 0)) [] = (0, [''z'', ''x'', ''y''])"
  using foreach_visits_in_sequence_order
      [of store_AB 0 file_foreach file_names "logging (\<lambda>k. if k = ''x'' then 7 else 0)" "[]"]
    foreach_visits_in_sequence_order
      [of store_AB 0 file_foreach file_names "logging (\<lambda>k. if k = ''z'' then - 1 else 0)" "[]"]
    foreach_visits_in_sequence_order
      [of store_AB 0 file_foreach file_names "logging (\<lambda>k. 0)" "[]"]
  by (simp add: file_foreach_visit)
    (simp add: add_file_unfold empty_heap_def two_backends_def store_AB_def stored_names_def
      file_names_def logging_def sorted_desc_def)

text \<open>With in-memory backends the contract holds for every store.\<close>

lemma in_memory_foreach:
  "git_config_foreach file_foreach h c fn d = visit_names (stored_names file_names h c) fn d"
  using foreach_files_visit [of "files (configs h c)" file_foreach h file_names fn 0 d]
  by (simp add: git_config_foreach_def stored_names_def file_foreach_visit)

text \<open>
  Claim C3 says that \<open>git_config_foreach\<close> visits the backends in priority order,
  highest first, until a callback returns nonzero. In \<open>store_extreme\<close>, where the
  comparator's overflow has left the backend of priority \<open>-2\<close> at index 0, its name
  \<open>z\<close> is visited before \<open>x\<close> and \<open>y\<close> of the backend of priority \<open>INT_MAX\<close>,
  and a callback that returns 5 on \<open>z\<close> ends the iteration with 5 before the backend
  of the highest priority has been visited at all.
\<close>

theorem foreach_visits_lowest_priority_first:
  "files (configs store_extreme 0)
     = [\<lparr>file = 2, priority = - 2\<rparr>, \<lparr>file = 1, priority = 2147483647\<rparr>] \<and>
   sint (priority \<lparr>file = 2, priority = - 2\<rparr>)
     < sint (priority \<lparr>file = 1, priority = 2147483647\<rparr>) \<and>
   file_names (backends store_extreme 2) = [''z''] \<and>
   file_names (backends store_extreme 1) = [''x'', ''y''] \<and>
   git_config_foreach file_foreach store_extreme 0 (logging (\<lambda>k. 0)) []
     = (0, [''z'', ''x'', ''y'']) \<and>
   git_config_foreach file_foreach store_extreme 0 (logging (\<lambda>k. if k = ''z'' then 5 else 0)) []
     = (5, [''z''])"
  by (simp add: add_file_unfold empty_heap_def two_backends_def store_extreme_def
      git_config_foreach_def file_foreach_def file_names_def logging_def)

text \<open>
  Claim C10. On a store without entries \<open>git_config_foreach\<close> returns 0 and the
  caller's data as it was given, for every callback, so the callback has not been
  invoked; \<open>git_config_get_string\<close> and \<open>git_config_set_string\<close> on the same store fail
  with \<open>GIT_EINVALIDARGS\<close>.
\<close>

theorem foreach_without_backend:
  assumes "files (configs h c) = []"
  shows "git_config_foreach foreachp h c fn d = (0, d) \<and>
    git_config_get_string getp h c name = Inl GIT_EINVALIDARGS \<and>
    fst (git_config_set_string setp h c name value) = Inl GIT_EINVALIDARGS"
  using assms
  by (simp add: git_config_foreach_def git_config_get_string_def git_config_set_string_def)

text \<open>A callback that would stop at once and log its invocation leaves the log empty.\<close>

theorem foreach_without_backend_witness:
  "files (configs two_backends 0) = [] \<and>
   git_config_foreach file_foreach two_backends 0 (logging (\<lambda>_. 1)) [] = (0, []) \<and>
   git_config_get_string file_get two_backends 0 ''x'' = Inl GIT_EINVALIDARGS \<and>
   fst (git_config_set_string file_set two_backends 0 ''x'' ''1'') = Inl GIT_EINVALIDARGS"
  using foreach_without_backend
      [of two_backends 0 file_foreach "logging (\<lambda>_. 1)" "[]" file_get "''x''" file_set "''1''"]
  by (simp add: two_backends_def empty_heap_def)

end
